theory Spec2Isabelle
  imports Main
begin

section \<open>The Cloud Build command wrapper (main.go)\<close>

text \<open>
  The wrapper asks the Cloud Build API when its build will be force-terminated, starts one
  child command, and waits for the first of three things: the child finishing, a signal
  sent to the wrapper itself, or a timer set to fire a configured lead time before the
  forced termination. Everything outside the program (command line, API reply, clock,
  the order in which events reach the main flow, the kernel's answer to a signal
  delivery) is an explicit input of the model, so every function below computes.
\<close>

subsection \<open>Signals and the catalog \<open>validSignals\<close>\<close>

text \<open>
  \<open>syscall.Signal\<close> is an integer type. The constants below carry the numbers of Go's
  \<open>syscall\<close> package for linux/amd64, the target the repository's build instructions
  name (\<open>GOOS=linux GOARCH=amd64\<close>). \<open>SIGIOT\<close> is the historical second name of
  \<open>SIGABRT\<close> and has the same number.
\<close>

type_synonym signal = nat

definition SIGABRT :: signal where "SIGABRT = 6"
definition SIGALRM :: signal where "SIGALRM = 14"
definition SIGBUS :: signal where "SIGBUS = 7"
definition SIGCHLD :: signal where "SIGCHLD = 17"
definition SIGCONT :: signal where "SIGCONT = 18"
definition SIGFPE :: signal where "SIGFPE = 8"
definition SIGHUP :: signal where "SIGHUP = 1"
definition SIGILL :: signal where "SIGILL = 4"
definition SIGINT :: signal where "SIGINT = 2"
definition SIGIO :: signal where "SIGIO = 29"
definition SIGIOT :: signal where "SIGIOT = 6"
definition SIGKILL :: signal where "SIGKILL = 9"
definition SIGPIPE :: signal where "SIGPIPE = 13"
definition SIGPROF :: signal where "SIGPROF = 27"
definition SIGQUIT :: signal where "SIGQUIT = 3"
definition SIGSEGV :: signal where "SIGSEGV = 11"
definition SIGSTOP :: signal where "SIGSTOP = 19"
definition SIGSYS :: signal where "SIGSYS = 31"
definition SIGTERM :: signal where "SIGTERM = 15"
definition SIGTRAP :: signal where "SIGTRAP = 5"
definition SIGTSTP :: signal where "SIGTSTP = 20"
definition SIGTTIN :: signal where "SIGTTIN = 21"
definition SIGTTOU :: signal where "SIGTTOU = 22"
definition SIGURG :: signal where "SIGURG = 23"
definition SIGUSR1 :: signal where "SIGUSR1 = 10"
definition SIGUSR2 :: signal where "SIGUSR2 = 12"
definition SIGVTALRM :: signal where "SIGVTALRM = 26"
definition SIGWINCH :: signal where "SIGWINCH = 28"
definition SIGXCPU :: signal where "SIGXCPU = 24"
definition SIGXFSZ :: signal where "SIGXFSZ = 25"

text \<open>The map literal of lines 43 to 74, entry by entry and in the source's order.\<close>

definition validSignals_entries :: "(string \<times> signal) list" where
  "validSignals_entries =
    [(''SIGABRT'', SIGABRT),
     (''SIGALRM'', SIGALRM),
     (''SIGBUS'', SIGBUS),
     (''SIGCHLD'', SIGCHLD),
     (''SIGCONT'', SIGCONT),
     (''SIGFPE'', SIGFPE),
     (''SIGHUP'', SIGHUP),
     (''SIGILL'', SIGILL),
     (''SIGINT'', SIGINT),
     (''SIGIO'', SIGIO),
     (''SIGIOT'', SIGIOT),
     (''SIGKILL'', SIGKILL),
     (''SIGPIPE'', SIGPIPE),
     (''SIGPROF'', SIGPROF),
     (''SIGQUIT'', SIGQUIT),
     (''SIGSEGV'', SIGSEGV),
     (''SIGSTOP'', SIGSTOP),
     (''SIGSYS'', SIGSYS),
     (''SIGTERM'', SIGTERM),
     (''SIGTRAP'', SIGTRAP),
     (''SIGTSTP'', SIGTSTP),
     (''SIGTTIN'', SIGTTIN),
     (''SIGTTOU'', SIGTTOU),
     (''SIGURG'', SIGURG),
     (''SIGUSR1'', SIGUSR1),
     (''SIGUSR2'', SIGUSR2),
     (''SIGVTALRM'', SIGVTALRM),
     (''SIGWINCH'', SIGWINCH),
     (''SIGXCPU'', SIGXCPU),
     (''SIGXFSZ'', SIGXFSZ)]"

text \<open>
  A Go map read \<open>v, ok := validSignals[name]\<close>: \<open>Some v\<close> when the key is present,
  \<open>None\<close> when \<open>ok\<close> is false. Keys are compared as byte strings.
\<close>

definition validSignals :: "string \<Rightarrow> signal option" where
  "validSignals name = map_of validSignals_entries name"

definition catalog_names :: "string list" where
  "catalog_names = map fst validSignals_entries"

subsection \<open>Errors\<close>

text \<open>
  What \<open>ProcessState\<close> records of a finished child: it exited with a code, or a
  signal killed it. \<open>ExitCode()\<close> is the code, and \<open>-1\<close> for a signalled child.
\<close>

datatype wait_status = Exited int | Signaled signal

fun ExitCode :: "wait_status \<Rightarrow> int" where
  "ExitCode (Exited c) = c"
| "ExitCode (Signaled s) = - 1"

text \<open>
  The error values of the program. \<open>ExitError\<close> is \<open>*exec.ExitError\<close>, what
  \<open>cmd.Run()\<close> returns for a child that ran and did not exit with code 0;
  \<open>OsError\<close> is any other error of the \<open>os\<close> and \<open>os/exec\<close> packages (a command
  that could not start, a signal that could not be delivered). The others are the
  \<open>errors.New\<close> values the program builds itself, with the values formatted into them.
  A Go \<open>error\<close> that may be \<open>nil\<close> is a \<open>go_error option\<close>.
\<close>

datatype go_error =
    UserRequestedHelp
  | TooFewArguments nat
  | NotAValidSignal string
  | BadBeforeTimeout string
  | ClientCreationError string
  | GetBuildError string
  | SignalTimeInPast int string
  | ExitError wait_status
  | OsError string

subsection \<open>Argument parsing\<close>

text \<open>
  \<open>pflag.Parse()\<close> is a library call; the model starts from what it leaves behind:
  the values of the three flags the program defines and the positional arguments.
\<close>

record flags =
  flag_signal :: string
  flag_before_timeout :: string
  flag_help :: bool
  positional :: "string list"

text \<open>The package-level variables that \<open>parseArgs\<close> has set when it succeeds.\<close>

record config =
  timeoutSigStr :: string
  timeoutStr :: string
  timeoutDur :: int
  projectId :: string
  buildId :: string
  cmdName :: string
  cmdArgs :: "string list"

text \<open>
  \<open>parseArgs\<close> returns \<open>(exit code, error)\<close>; on success the configuration is the
  result. \<open>time.ParseDuration\<close> is the parameter \<open>pd\<close>: it gives an error text or a
  duration in nanoseconds.
\<close>

definition parseArgs :: "(string \<Rightarrow> string + int) \<Rightarrow> flags \<Rightarrow> (int \<times> go_error) + config" where
  "parseArgs pd fl =
    (if flag_help fl then Inl (0, UserRequestedHelp)
     else if length (positional fl) < 3 then Inl (1, TooFewArguments (length (positional fl)))
     else case validSignals (flag_signal fl) of
       None \<Rightarrow> Inl (1, NotAValidSignal (flag_signal fl))
     | Some _ \<Rightarrow>
        (case pd (flag_before_timeout fl) of
           Inl msg \<Rightarrow> Inl (1, BadBeforeTimeout msg)
         | Inr dur \<Rightarrow>
             Inr \<lparr> timeoutSigStr = flag_signal fl,
                   timeoutStr = flag_before_timeout fl,
                   timeoutDur = dur,
                   projectId = positional fl ! 0,
                   buildId = positional fl ! 1,
                   cmdName = positional fl ! 2,
                   cmdArgs = drop 3 (positional fl) \<rparr>))"

subsection \<open>Time and the deadline\<close>

text \<open>
  A \<open>time.Time\<close> is its number of nanoseconds since the Unix epoch, a
  \<open>time.Duration\<close> is a number of nanoseconds; a \<open>Duration\<close> is an \<open>int64\<close>.
\<close>

type_synonym timestamp = int
type_synonym duration = int

definition Second :: duration where
  "Second = 1000000000"

definition minDuration :: duration where
  "minDuration = - (2 ^ 63)"

definition maxDuration :: duration where
  "maxDuration = 2 ^ 63 - 1"

text \<open>The value an \<open>int64\<close> holds after an addition or subtraction has wrapped.\<close>

definition int64 :: "int \<Rightarrow> int" where
  "int64 x = (x + 2 ^ 63) mod 2 ^ 64 - 2 ^ 63"

text \<open>
  \<open>int64(d.Seconds())\<close> of line 132. \<open>Seconds\<close> computes, in \<open>float64\<close>,
  \<open>float64(d / Second) + float64(d % Second) / 1e9\<close>; the division and the sum are each
  rounded to the nearest \<open>float64\<close>, ties to the even significand, and the conversion
  to \<open>int64\<close> drops the fraction. The rounding is written out on integers: a positive
  \<open>float64\<close> is a significand \<open>m\<close> of 53 bits and an exponent \<open>e\<close>, with the value
  \<open>m * 2 ^ e\<close> (a significand rounded up to \<open>2 ^ 53\<close> stands for the same value as
  \<open>2 ^ 52\<close> with the next exponent).
\<close>

function bit_length :: "int \<Rightarrow> nat" where
  "bit_length n = (if n \<le> 0 then 0 else Suc (bit_length (n div 2)))"
  by pat_completeness auto
termination
  by (relation "measure nat") auto

declare bit_length.simps [simp del]

text \<open>The integer nearest to \<open>a / b\<close>, the even one of two that are equally near.\<close>

definition round_half_even :: "int \<Rightarrow> int \<Rightarrow> int" where
  "round_half_even a b =
    (let q = a div b; r = a mod b
     in if 2 * r < b then q
        else if b < 2 * r then q + 1
        else if even q then q else q + 1)"

text \<open>
  The \<open>float64\<close> nearest to the ratio \<open>a / b\<close> of two positive integers: \<open>lg\<close> is the
  whole part of the binary logarithm of the ratio, which is the difference \<open>L\<close> of the
  bit lengths or one less.
\<close>

definition float64_of_ratio :: "int \<Rightarrow> int \<Rightarrow> int \<times> int" where
  "float64_of_ratio a b =
    (let L = int (bit_length a) - int (bit_length b);
         lg = (if b * 2 ^ nat L \<le> a * 2 ^ nat (- L) then L else L - 1);
         e = lg - 52;
         m = round_half_even (a * 2 ^ nat (- e)) (b * 2 ^ nat e)
     in (m, e))"

definition int64_of_float64 :: "int \<times> int \<Rightarrow> int" where
  "int64_of_float64 f = (case f of (m, e) \<Rightarrow> (m * 2 ^ nat e) div 2 ^ nat (- e))"

text \<open>
  For a duration that is not negative. A whole number of seconds is a \<open>float64\<close> as it
  is (a \<open>Duration\<close> has fewer than \<open>2 ^ 34\<close> seconds), and adding zero changes nothing.
  Otherwise the quotient \<open>nsec / 1e9\<close> is rounded, then its sum with the seconds.
\<close>

definition seconds_of_magnitude :: "duration \<Rightarrow> int" where
  "seconds_of_magnitude d =
    (let sec = d div Second; nsec = d mod Second
     in if nsec = 0 then sec
        else (case float64_of_ratio nsec Second of
                (m, e) \<Rightarrow>
                  int64_of_float64
                    (float64_of_ratio (sec * 2 ^ nat (- e) + m) (2 ^ nat (- e)))))"

text \<open>
  Go's \<open>/\<close> and \<open>%\<close> round towards zero and the \<open>float64\<close> operations are symmetric
  in the sign, so a negative duration has the negated seconds of its magnitude.
\<close>

definition whole_seconds :: "duration \<Rightarrow> int" where
  "whole_seconds d = (if 0 \<le> d then seconds_of_magnitude d else - seconds_of_magnitude (- d))"

text \<open>
  \<open>time.Unix(sec, 0)\<close>. A \<open>Time\<close> holds its seconds counted from the year 1, in an
  \<open>int64\<close>: \<open>time.Unix\<close> adds \<open>unixToInternal\<close> to \<open>sec\<close>, and the sum wraps.
\<close>

definition unixToInternal :: int where
  "unixToInternal = 62135596800"

definition time_Unix :: "int \<Rightarrow> timestamp" where
  "time_Unix sec = (int64 (sec + unixToInternal) - unixToInternal) * Second"

text \<open>
  \<open>t.Before(u)\<close> for a \<open>t\<close> without a monotonic clock reading, as \<open>time.Unix\<close>
  makes it: the wall-clock instants are compared.
\<close>

definition time_Before :: "timestamp \<Rightarrow> timestamp \<Rightarrow> bool" where
  "time_Before t u = (t < u)"

text \<open>
  \<open>t.Sub(u)\<close>: the difference, held to the range of a \<open>Duration\<close>. (\<open>Sub\<close>
  computes the difference in wrapping \<open>int64\<close> arithmetic, checks it by adding it back
  to \<open>u\<close>, and returns the least or the greatest \<open>Duration\<close> when the check fails.)
\<close>

definition time_Sub :: "timestamp \<Rightarrow> timestamp \<Rightarrow> duration" where
  "time_Sub t u =
    (if t - u < minDuration then minDuration
     else if maxDuration < t - u then maxDuration
     else t - u)"

text \<open>
  The reply of the Cloud Build API: the client cannot be created, the build cannot be
  fetched, or the build's \<open>StartTime.Seconds\<close> and \<open>Timeout.Seconds\<close>.
\<close>

datatype api_reply =
    NewClientFails string
  | GetBuildFails string
  | Build int int

datatype logline =
    GettingBuildInfo
  | CloudBuildTimeoutIs int
  | ContainerTerminatedAt timestamp
  | ProcessSignaledAt timestamp
  | ForwardingSignal signal
  | TimeoutReached string
  | WaitingOnProcess
  | ExitedNonZero int
  | ExitedSuccessfully
  | Fatal go_error

text \<open>
  A call returns a value, returns an error, or panics. The one panic of
  \<open>getBuildSignalTime\<close> is the slice \<open>buildId[:8]\<close> of a build id shorter than eight
  bytes, taken while the error of lines 134 to 136 is formatted.
\<close>

datatype 'a result = Ok 'a | Err go_error | Panics

definition getBuildSignalTime ::
  "config \<Rightarrow> api_reply \<Rightarrow> timestamp \<Rightarrow> logline list \<times> timestamp result" where
  "getBuildSignalTime cfg api now =
    (case api of
       NewClientFails msg \<Rightarrow> ([GettingBuildInfo], Err (ClientCreationError msg))
     | GetBuildFails msg \<Rightarrow> ([GettingBuildInfo], Err (GetBuildError msg))
     | Build startSeconds timeoutSeconds \<Rightarrow>
        (let buildTimeoutTime = int64 (startSeconds + timeoutSeconds);
             signalTime = time_Unix (int64 (buildTimeoutTime - whole_seconds (timeoutDur cfg)))
         in if time_Before signalTime now then
              (if length (buildId cfg) < 8 then ([GettingBuildInfo], Panics)
               else ([GettingBuildInfo],
                     Err (SignalTimeInPast signalTime (take 8 (buildId cfg)))))
            else ([GettingBuildInfo,
                   CloudBuildTimeoutIs timeoutSeconds,
                   ContainerTerminatedAt (time_Unix buildTimeoutTime),
                   ProcessSignaledAt signalTime],
                  Ok signalTime)))"

subsection \<open>Supervising the child: \<open>runCommand\<close>\<close>

text \<open>
  What can reach the main flow while it waits: the value \<open>cmd.Run()\<close> returned, sent
  on \<open>done\<close> by the goroutine of lines 90 to 93; a signal relayed on \<open>sigChan\<close>; the
  timer of \<open>time.After\<close>. A run of the environment is the list of these in the order
  in which the main flow's receive operations can take them.
\<close>

datatype event =
    ChildDone "go_error option"
  | Incoming signal
  | TimerFired

text \<open>
  The steps of the main flow, in program order. \<open>StartChild\<close> is the \<open>go\<close>
  statement of lines 90 to 93, whose goroutine runs the command; \<open>ArmTimer\<close> is the
  \<open>time.After(timeout)\<close> of the \<open>select\<close>. \<open>SendSignal s r\<close> is the call
  \<open>cmd.Process.Signal(s)\<close> with its result \<open>r\<close>; the signal is an \<open>os.Signal\<close>
  interface value, \<open>None\<close> for \<open>nil\<close>. (The goroutine's own log line is not a step
  of the main flow and is left out.)
\<close>

datatype action =
    PrintUsage
  | PrintError go_error
  | Log logline
  | StartChild string "string list"
  | ArmTimer duration
  | RecvDone "go_error option"
  | RecvSignal signal
  | RecvTimer
  | SendSignal "signal option" "go_error option"

text \<open>
  \<open>runCommand\<close> returns an error value, or never returns because \<open>done\<close> never
  delivers, or panics: \<open>cmd.Process\<close> is \<open>nil\<close> until the goroutine has started the
  child, and stays \<open>nil\<close> when the start failed, and \<open>Signal\<close> reads a field of it.
\<close>

datatype run_result = Returned "go_error option" | BlocksForever | NilProcessPanic

text \<open>
  Line 109, \<open><-done\<close>: the first value on \<open>done\<close>. Signals that arrive meanwhile find
  no receiver on the unbuffered \<open>sigChan\<close> and are dropped by \<open>signal.Notify\<close>; the
  timer's channel is no longer read.
\<close>

fun await_done :: "event list \<Rightarrow> go_error option option" where
  "await_done [] = None"
| "await_done (ChildDone r # es) = Some r"
| "await_done (Incoming s # es) = await_done es"
| "await_done (TimerFired # es) = await_done es"

text \<open>
  Lines 107 to 110, shared by the signal and the timer branch: \<open>err\<close> holds the result
  of \<open>Signal\<close>; the value received from \<open>done\<close> is not assigned to anything.
\<close>

definition wait_and_return ::
  "action list \<Rightarrow> go_error option \<Rightarrow> event list \<Rightarrow> action list \<times> run_result" where
  "wait_and_return tr err es =
    (case await_done es of
       None \<Rightarrow> (tr @ [Log WaitingOnProcess], BlocksForever)
     | Some r \<Rightarrow> (tr @ [Log WaitingOnProcess, RecvDone r], Returned err))"

text \<open>
  \<open>process_set\<close> says whether \<open>cmd.Process\<close> is set when a branch calls \<open>Signal\<close>;
  \<open>deliver\<close> is the kernel's answer to a delivery, \<open>None\<close> for success.
\<close>

definition runCommand ::
  "config \<Rightarrow> duration \<Rightarrow> bool \<Rightarrow> (signal option \<Rightarrow> go_error option) \<Rightarrow> event list
    \<Rightarrow> action list \<times> run_result" where
  "runCommand cfg timeout process_set deliver es =
    (let started = [StartChild (cmdName cfg) (cmdArgs cfg), ArmTimer timeout] in
     case es of
       [] \<Rightarrow> (started, BlocksForever)
     | ChildDone err # rest \<Rightarrow> (started @ [RecvDone err], Returned err)
     | Incoming recdSig # rest \<Rightarrow>
         (let tr = started @ [RecvSignal recdSig, Log (ForwardingSignal recdSig)] in
          if \<not> process_set then (tr, NilProcessPanic)
          else let err = deliver (Some recdSig)
               in wait_and_return (tr @ [SendSignal (Some recdSig) err]) err rest)
     | TimerFired # rest \<Rightarrow>
         (let tr = started @ [RecvTimer, Log (TimeoutReached (timeoutSigStr cfg))] in
          if \<not> process_set then (tr, NilProcessPanic)
          else let sig = validSignals (timeoutSigStr cfg);
                   err = deliver sig
               in wait_and_return (tr @ [SendSignal sig err]) err rest))"

subsection \<open>The program\<close>

text \<open>Everything outside the program that one run of it meets.\<close>

record world =
  parsed_flags :: flags
  parseDuration :: "string \<Rightarrow> string + int"
  api :: api_reply
  now_resolve :: timestamp
  now_main :: timestamp
  events :: "event list"
  process_set :: bool
  deliver :: "signal option \<Rightarrow> go_error option"

text \<open>
  How the process ends: \<open>os.Exit\<close> with a code (also through \<open>log.Fatalln\<close>, code 1),
  \<open>main\<close> returning, a panic, or never.
\<close>

datatype ending = OsExit int | MainReturns | GoPanic | Hangs

text \<open>
  The exit status the caller of the program sees: the low eight bits of the argument of
  \<open>os.Exit\<close> (so 255 for \<open>os.Exit(-1)\<close>), 0 when \<open>main\<close> returns, 2 after a panic.
\<close>

fun exit_status :: "ending \<Rightarrow> int option" where
  "exit_status (OsExit c) = Some (c mod 256)"
| "exit_status MainReturns = Some 0"
| "exit_status GoPanic = Some 2"
| "exit_status Hangs = None"

text \<open>
  Lines 204 to 208: \<open>signal.Notify\<close> without a list relays every incoming signal to the
  channel, and \<open>signal.Reset(syscall.SIGCHLD)\<close> takes \<open>SIGCHLD\<close> out again.
\<close>

definition caughtSigsChan :: "event list \<Rightarrow> event list" where
  "caughtSigsChan es = filter (\<lambda>e. e \<noteq> Incoming SIGCHLD) es"

text \<open>
  Lines 210 to 220: what \<open>main\<close> does with the result of \<open>runCommand\<close>. An
  \<open>ExitError\<close> ends the program with its \<open>ExitCode()\<close>, any other error with
  \<open>log.Fatalln\<close>, and \<open>nil\<close> lets \<open>main\<close> return.
\<close>

definition report :: "action list \<times> run_result \<Rightarrow> action list \<times> ending" where
  "report r =
    (case r of
       (tr, Returned None) \<Rightarrow> (tr @ [Log ExitedSuccessfully], MainReturns)
     | (tr, Returned (Some (ExitError st))) \<Rightarrow>
         (tr @ [Log (ExitedNonZero (ExitCode st))], OsExit (ExitCode st))
     | (tr, Returned (Some err)) \<Rightarrow> (tr @ [Log (Fatal err)], OsExit 1)
     | (tr, BlocksForever) \<Rightarrow> (tr, Hangs)
     | (tr, NilProcessPanic) \<Rightarrow> (tr, GoPanic))"

text \<open>
  \<open>main\<close>: the trace of the run and how the process ends. The clock is read twice, by
  \<open>getBuildSignalTime\<close> (line 134) and when the timer's duration is computed (line 202).
\<close>

definition main :: "world \<Rightarrow> action list \<times> ending" where
  "main w =
    (case parseArgs (parseDuration w) (parsed_flags w) of
       Inl (exitCode, err) \<Rightarrow>
         (PrintUsage # (if err = UserRequestedHelp then [] else [PrintError err]),
          OsExit exitCode)
     | Inr cfg \<Rightarrow>
        (case getBuildSignalTime cfg (api w) (now_resolve w) of
           (lg, Panics) \<Rightarrow> (map Log lg, GoPanic)
         | (lg, Err err) \<Rightarrow> (map Log lg @ [Log (Fatal err)], OsExit 1)
         | (lg, Ok signalTime) \<Rightarrow>
            (let adjustedTimeout = time_Sub signalTime (now_main w);
                 (tr, r) = runCommand cfg adjustedTimeout (process_set w) (deliver w)
                             (caughtSigsChan (events w))
             in report (map Log lg @ tr, r))))"

subsection \<open>Concrete runs\<close>

text \<open>
  A command line, a build and a clock to run the program on: the build started at second
  40 with a timeout of 60 seconds, so it is terminated at second 100; with the lead time
  \<open>10s\<close> the child is to be signalled at second 90. \<open>example_parseDuration\<close> knows the
  few duration texts the runs use.
\<close>

definition example_parseDuration :: "string \<Rightarrow> string + int" where
  "example_parseDuration s =
    (if s = ''10s'' then Inr (10 * Second)
     else if s = ''1500ms'' then Inr 1500000000
     else if s = ''60s'' then Inr (60 * Second)
     else Inl ''time: invalid duration'')"

definition example_flags :: flags where
  "example_flags =
    \<lparr> flag_signal = ''SIGTERM'',
      flag_before_timeout = ''10s'',
      flag_help = False,
      positional = [''my-project'', ''0f0e0d0c-0b0a'', ''terraform'', ''apply''] \<rparr>"

text \<open>What \<open>parseArgs\<close> makes of \<open>example_flags\<close>.\<close>

definition example_config :: config where
  "example_config =
    \<lparr> timeoutSigStr = ''SIGTERM'',
      timeoutStr = ''10s'',
      timeoutDur = 10 * Second,
      projectId = ''my-project'',
      buildId = ''0f0e0d0c-0b0a'',
      cmdName = ''terraform'',
      cmdArgs = [''apply''] \<rparr>"

definition example_world :: world where
  "example_world =
    \<lparr> parsed_flags = example_flags,
      parseDuration = example_parseDuration,
      api = Build 40 60,
      now_resolve = 50 * Second,
      now_main = 50 * Second,
      events = [ChildDone None],
      process_set = True,
      deliver = (\<lambda>s. None) \<rparr>"

text \<open>The catalog without its entry for \<open>SIGIOT\<close>.\<close>

definition entries_without_SIGIOT :: "(string \<times> signal) list" where
  "entries_without_SIGIOT = filter (\<lambda>e. fst e \<noteq> ''SIGIOT'') validSignals_entries"

text \<open>The durations of the timers a trace arms, in order.\<close>

fun timers_armed :: "action list \<Rightarrow> duration list" where
  "timers_armed [] = []"
| "timers_armed (ArmTimer d # tr) = d # timers_armed tr"
| "timers_armed (a # tr) = timers_armed tr"

text \<open>The values an \<open>int64\<close> can hold.\<close>

definition is_int64 :: "int \<Rightarrow> bool" where
  "is_int64 x \<longleftrightarrow> - (2 ^ 63) \<le> x \<and> x < 2 ^ 63"

section \<open>Unfolding the definitions\<close>

lemmas signal_numbers =
  SIGABRT_def SIGALRM_def SIGBUS_def SIGCHLD_def SIGCONT_def SIGFPE_def SIGHUP_def
  SIGILL_def SIGINT_def SIGIO_def SIGIOT_def SIGKILL_def SIGPIPE_def SIGPROF_def
  SIGQUIT_def SIGSEGV_def SIGSTOP_def SIGSYS_def SIGTERM_def SIGTRAP_def SIGTSTP_def
  SIGTTIN_def SIGTTOU_def SIGURG_def SIGUSR1_def SIGUSR2_def SIGVTALRM_def
  SIGWINCH_def SIGXCPU_def SIGXFSZ_def

text \<open>The whole seconds of the lead times \<open>10s\<close> and \<open>1500ms\<close>.\<close>

lemma whole_seconds_10s: "whole_seconds 10000000000 = 10"
  by (simp add: whole_seconds_def seconds_of_magnitude_def Second_def)

lemma whole_seconds_1500ms: "whole_seconds 1500000000 = 1"
  by code_simp

lemmas run_defs =
  main_def report_def runCommand_def wait_and_return_def caughtSigsChan_def
  getBuildSignalTime_def parseArgs_def validSignals_def validSignals_entries_def
  signal_numbers int64_def whole_seconds_10s whole_seconds_1500ms time_Unix_def
  unixToInternal_def time_Before_def time_Sub_def Second_def minDuration_def maxDuration_def
  example_world_def example_flags_def example_parseDuration_def Let_def

section \<open>The signal catalog\<close>

lemma distinct_catalog_names: "distinct catalog_names"
  by (simp add: catalog_names_def validSignals_entries_def)

lemma validSignals_None_iff: "validSignals n = None \<longleftrightarrow> n \<notin> set catalog_names"
  by (simp add: validSignals_def catalog_names_def map_of_eq_None_iff)

lemma validSignals_Some_iff: "validSignals n = Some s \<longleftrightarrow> (n, s) \<in> set validSignals_entries"
  using distinct_catalog_names by (simp add: validSignals_def catalog_names_def)

lemma distinct_numbers: "distinct (map snd entries_without_SIGIOT)"
  by (simp add: entries_without_SIGIOT_def validSignals_entries_def signal_numbers)

lemma same_number_same_name:
  assumes "(n1, s) \<in> set entries_without_SIGIOT" and "(n2, s) \<in> set entries_without_SIGIOT"
  shows "n1 = n2"
proof -
  have "distinct (map fst (map prod.swap entries_without_SIGIOT))"
    using distinct_numbers by (simp add: comp_def)
  moreover have "(s, n1) \<in> set (map prod.swap entries_without_SIGIOT)"
    and "(s, n2) \<in> set (map prod.swap entries_without_SIGIOT)"
    using assms by force+
  ultimately show ?thesis
    by (rule eq_key_imp_eq_value)
qed

lemma SIGIOT_number: "(''SIGIOT'', s) \<in> set validSignals_entries \<Longrightarrow> s = 6"
  using validSignals_Some_iff [of "''SIGIOT''" s]
  by (simp add: validSignals_def validSignals_entries_def signal_numbers)

lemma SIGABRT_entry: "(''SIGABRT'', 6) \<in> set entries_without_SIGIOT"
  by (simp add: entries_without_SIGIOT_def validSignals_entries_def signal_numbers)

lemma alias_of_SIGIOT:
  assumes "(''SIGIOT'', s) \<in> set validSignals_entries" and "(n, s) \<in> set validSignals_entries"
    and "n \<noteq> ''SIGIOT''"
  shows "s = 6 \<and> n = ''SIGABRT''"
proof -
  have s: "s = 6" using assms(1) by (rule SIGIOT_number)
  have "(n, 6) \<in> set entries_without_SIGIOT"
    using assms(2,3) s by (simp add: entries_without_SIGIOT_def)
  then have "n = ''SIGABRT''"
    using SIGABRT_entry by (rule same_number_same_name)
  with s show ?thesis by simp
qed

lemma entries_alias:
  assumes "(n1, s) \<in> set validSignals_entries" and "(n2, s) \<in> set validSignals_entries"
    and "n1 \<noteq> n2"
  shows "s = 6 \<and> {n1, n2} = {''SIGABRT'', ''SIGIOT''}"
proof (cases "n1 = ''SIGIOT''")
  case True
  then show ?thesis using alias_of_SIGIOT [of s n2] assms by auto
next
  case n1: False
  show ?thesis
  proof (cases "n2 = ''SIGIOT''")
    case True
    then show ?thesis using alias_of_SIGIOT [of s n1] assms by auto
  next
    case False
    with n1 assms(1,2) have "(n1, s) \<in> set entries_without_SIGIOT"
      and "(n2, s) \<in> set entries_without_SIGIOT"
      by (simp_all add: entries_without_SIGIOT_def)
    then have "n1 = n2" by (rule same_number_same_name)
    with assms(3) show ?thesis by simp
  qed
qed

text \<open>
  Claim C6, as the spec states it, asks that every catalog name be looked up to a signal
  distinct from the signal of every other catalog name. The catalog has two names for
  signal 6: \<open>SIGABRT\<close> and \<open>SIGIOT\<close> are different keys with the same value.
\<close>

theorem catalog_alias_counterexample:
  "validSignals ''SIGABRT'' = Some 6 \<and> validSignals ''SIGIOT'' = Some 6
    \<and> ''SIGABRT'' \<noteq> ''SIGIOT''"
  by (simp add: validSignals_def validSignals_entries_def signal_numbers)

text \<open>
  Claim C6, amended: a lookup succeeds for every name of the catalog and fails for every
  other string (the match is exact and case-sensitive, since only the thirty keys
  themselves are found); two different names that are found give different signals,
  except for the pair \<open>SIGABRT\<close> and \<open>SIGIOT\<close>, which both give signal 6.
\<close>

theorem validSignals_lookup:
  "(n \<in> set catalog_names \<longrightarrow> (\<exists>s. validSignals n = Some s))
    \<and> (n \<notin> set catalog_names \<longrightarrow> validSignals n = None)
    \<and> (validSignals n1 = Some s1 \<and> validSignals n2 = Some s2 \<and> n1 \<noteq> n2 \<and> s1 = s2
          \<longrightarrow> s1 = SIGABRT \<and> {n1, n2} = {''SIGABRT'', ''SIGIOT''})"
proof (intro conjI impI)
  assume "n \<in> set catalog_names"
  then have "validSignals n \<noteq> None"
    by (simp add: validSignals_None_iff)
  then show "\<exists>s. validSignals n = Some s"
    by auto
next
  assume "n \<notin> set catalog_names"
  then show "validSignals n = None"
    by (simp add: validSignals_None_iff)
next
  assume a: "validSignals n1 = Some s1 \<and> validSignals n2 = Some s2 \<and> n1 \<noteq> n2 \<and> s1 = s2"
  then have "(n1, s1) \<in> set validSignals_entries" and "(n2, s1) \<in> set validSignals_entries"
    by (auto simp: validSignals_Some_iff)
  with a have "s1 = 6 \<and> {n1, n2} = {''SIGABRT'', ''SIGIOT''}"
    by (intro entries_alias) simp_all
  then show "s1 = SIGABRT" and "{n1, n2} = {''SIGABRT'', ''SIGIOT''}"
    by (simp_all add: SIGABRT_def)
qed

theorem validSignals_lookup_witness:
  "''SIGTERM'' \<in> set catalog_names \<and> validSignals ''SIGTERM'' = Some 15
    \<and> ''SIGBOGUS'' \<notin> set catalog_names \<and> validSignals ''SIGBOGUS'' = None
    \<and> ''sigterm'' \<notin> set catalog_names \<and> validSignals ''sigterm'' = None
    \<and> validSignals ''SIGIOT'' = Some 6 \<and> validSignals ''SIGABRT'' = Some 6
    \<and> ''SIGIOT'' \<noteq> ''SIGABRT'' \<and> (6 :: nat) = SIGABRT"
  using validSignals_lookup [where n = "''SIGTERM''" and ?n1.0 = "''SIGIOT''"
      and ?n2.0 = "''SIGABRT''" and ?s1.0 = 6 and ?s2.0 = 6]
    validSignals_lookup [where n = "''SIGBOGUS''" and ?n1.0 = "''SIGIOT''"
      and ?n2.0 = "''SIGABRT''" and ?s1.0 = 6 and ?s2.0 = 6]
    validSignals_lookup [where n = "''sigterm''" and ?n1.0 = "''SIGIOT''"
      and ?n2.0 = "''SIGABRT''" and ?s1.0 = 6 and ?s2.0 = 6]
  by (simp add: catalog_names_def validSignals_def validSignals_entries_def signal_numbers)

section \<open>Argument parsing and the timeout signal\<close>

lemma parseArgs_example: "parseArgs example_parseDuration example_flags = Inr example_config"
  by (simp add: parseArgs_def example_flags_def example_parseDuration_def example_config_def
      validSignals_def validSignals_entries_def)

lemma parseArgs_signal:
  assumes "parseArgs pd fl = Inr cfg"
  shows "\<exists>s. validSignals (timeoutSigStr cfg) = Some s"
  using assms
  by (auto simp: parseArgs_def split: if_splits option.splits sum.splits)

text \<open>
  Claim C10: when \<open>parseArgs\<close> has succeeded, the configured timeout-signal name is a key
  of the catalog; so the lookup \<open>validSignals[timeoutSigStr]\<close> of the timer branch finds a
  signal, that signal is what the branch sends to the child, and the branch never sends
  the zero value (\<open>nil\<close>).
\<close>

theorem timer_lookup_cannot_miss:
  assumes "parseArgs pd fl = Inr cfg"
  shows "timeoutSigStr cfg \<in> set catalog_names
    \<and> (\<exists>s. validSignals (timeoutSigStr cfg) = Some s
          \<and> SendSignal (Some s) (dl (Some s))
              \<in> set (fst (runCommand cfg t True dl (TimerFired # rest))))
    \<and> (\<forall>r. SendSignal None r \<notin> set (fst (runCommand cfg t True dl (TimerFired # rest))))"
proof -
  from assms obtain s where s: "validSignals (timeoutSigStr cfg) = Some s"
    using parseArgs_signal by blast
  then have "timeoutSigStr cfg \<in> set catalog_names"
    using validSignals_None_iff [of "timeoutSigStr cfg"] by simp
  moreover have "SendSignal (Some s) (dl (Some s))
      \<in> set (fst (runCommand cfg t True dl (TimerFired # rest)))"
    using s by (simp add: runCommand_def wait_and_return_def Let_def split: option.splits)
  moreover have "\<forall>r. SendSignal None r \<notin> set (fst (runCommand cfg t True dl (TimerFired # rest)))"
    using s by (simp add: runCommand_def wait_and_return_def Let_def split: option.splits)
  ultimately show ?thesis using s by blast
qed

theorem timer_lookup_cannot_miss_witness:
  "parseArgs example_parseDuration example_flags = Inr example_config
    \<and> timeoutSigStr example_config = ''SIGTERM''
    \<and> ''SIGTERM'' \<in> set catalog_names
    \<and> validSignals ''SIGTERM'' = Some 15
    \<and> SendSignal (Some 15) None
        \<in> set (fst (runCommand example_config 5 True (\<lambda>s. None) [TimerFired, ChildDone None]))"
  using timer_lookup_cannot_miss [OF parseArgs_example, of "\<lambda>s. None" 5 "[ChildDone None]"]
  by (simp add: parseArgs_example example_config_def validSignals_def validSignals_entries_def
      signal_numbers)

section \<open>The supervisor\<close>

lemma await_done_Some: "await_done es = Some r \<Longrightarrow> ChildDone r \<in> set es"
  by (induction es rule: await_done.induct) auto

text \<open>
  Claim C3: whichever event \<open>runCommand\<close> takes first, it returns only after it has
  received the child's result from \<open>done\<close> (the receive is the last step of every run
  that returns, and the value received is one the environment sent); and no receive from
  \<open>done\<close> comes before a \<open>Signal\<close> call, so every signal is sent before the final wait.
\<close>

theorem runCommand_waits_for_done:
  assumes "runCommand cfg t ps dl es = (tr, res)"
  shows "(\<forall>e. res = Returned e \<longrightarrow> (\<exists>pre r. tr = pre @ [RecvDone r] \<and> ChildDone r \<in> set es))
    \<and> (\<forall>pre s r post q. tr = pre @ SendSignal s r # post \<longrightarrow> RecvDone q \<notin> set pre)"
  using assms
  by (auto simp: runCommand_def wait_and_return_def Let_def Cons_eq_append_conv
      dest: await_done_Some
      split: list.splits event.splits option.splits if_splits)

theorem runCommand_waits_for_done_witness:
  "runCommand example_config 5 True (\<lambda>s. None)
      [Incoming 2, Incoming 15, ChildDone (Some (ExitError (Exited 130)))]
    = ([StartChild ''terraform'' [''apply''], ArmTimer 5, RecvSignal 2,
        Log (ForwardingSignal 2), SendSignal (Some 2) None, Log WaitingOnProcess,
        RecvDone (Some (ExitError (Exited 130)))],
       Returned None)
    \<and> RecvDone (Some (ExitError (Exited 130)))
        \<notin> set [StartChild ''terraform'' [''apply''], ArmTimer 5, RecvSignal 2,
                Log (ForwardingSignal 2)]"
  using runCommand_waits_for_done [of example_config 5 True "\<lambda>s. None"
      "[Incoming 2, Incoming 15, ChildDone (Some (ExitError (Exited 130)))]"
      "[StartChild ''terraform'' [''apply''], ArmTimer 5, RecvSignal 2,
        Log (ForwardingSignal 2), SendSignal (Some 2) None, Log WaitingOnProcess,
        RecvDone (Some (ExitError (Exited 130)))]"
      "Returned None"]
  by (simp add: runCommand_def wait_and_return_def example_config_def)

text \<open>
  Claim C9, as the spec states it, asks that a failed delivery be logged as a warning and
  leave the child's exit status as the outcome of the run. In the run below the timer
  fires, the delivery of \<open>SIGTERM\<close> fails because the child has just finished, and the
  child has exited with code 0: the program logs nothing at the failure, and ends through
  \<open>log.Fatalln\<close> with the delivery error and exit code 1.
\<close>

theorem delivery_failure_counterexample:
  "main (example_world\<lparr>events := [TimerFired, ChildDone None],
                        deliver := (\<lambda>s. Some (OsError ''os: process already finished''))\<rparr>)
    = ([Log GettingBuildInfo, Log (CloudBuildTimeoutIs 60),
        Log (ContainerTerminatedAt 100000000000), Log (ProcessSignaledAt 90000000000),
        StartChild ''terraform'' [''apply''], ArmTimer 40000000000, RecvTimer,
        Log (TimeoutReached ''SIGTERM''),
        SendSignal (Some 15) (Some (OsError ''os: process already finished'')),
        Log WaitingOnProcess, RecvDone None,
        Log (Fatal (OsError ''os: process already finished''))],
       OsExit 1)"
  by (simp add: run_defs)

text \<open>
  Claim C9, amended: when the delivery of a signal to the child fails, whether the signal
  was forwarded or sent at the timeout, supervision goes on to the wait step: the next
  steps of \<open>runCommand\<close> are the line "Waiting on process to exit..." and the receive of
  the child's result from \<open>done\<close>, and then it returns. Nothing is logged at the failure.
\<close>

theorem delivery_failure_still_waits:
  "(dl (Some s) = Some e \<and> await_done rest = Some r \<longrightarrow>
      (\<exists>pre x. runCommand cfg t True dl (Incoming s # rest)
         = (pre @ [SendSignal (Some s) (Some e), Log WaitingOnProcess, RecvDone r], Returned x)))
   \<and> (dl (validSignals (timeoutSigStr cfg)) = Some e \<and> await_done rest = Some r \<longrightarrow>
      (\<exists>pre x. runCommand cfg t True dl (TimerFired # rest)
         = (pre @ [SendSignal (validSignals (timeoutSigStr cfg)) (Some e),
                   Log WaitingOnProcess, RecvDone r], Returned x)))"
  by (simp add: runCommand_def wait_and_return_def Let_def)

theorem delivery_failure_still_waits_witness:
  "await_done [Incoming 1, ChildDone None] = Some None
    \<and> fst (runCommand example_config 5 True (\<lambda>s. Some (OsError ''operation not permitted''))
            [Incoming 2, Incoming 1, ChildDone None])
      = [StartChild ''terraform'' [''apply''], ArmTimer 5, RecvSignal 2,
         Log (ForwardingSignal 2),
         SendSignal (Some 2) (Some (OsError ''operation not permitted'')),
         Log WaitingOnProcess, RecvDone None]
    \<and> fst (runCommand example_config 5 True (\<lambda>s. Some (OsError ''operation not permitted''))
            [TimerFired, Incoming 1, ChildDone None])
      = [StartChild ''terraform'' [''apply''], ArmTimer 5, RecvTimer,
         Log (TimeoutReached ''SIGTERM''),
         SendSignal (Some 15) (Some (OsError ''operation not permitted'')),
         Log WaitingOnProcess, RecvDone None]"
  using delivery_failure_still_waits [where dl = "\<lambda>s. Some (OsError ''operation not permitted'')"
      and s = 2 and e = "OsError ''operation not permitted''"
      and rest = "[Incoming 1, ChildDone None]" and r = None and cfg = example_config and t = 5]
  by (simp add: runCommand_def wait_and_return_def example_config_def validSignals_def
      validSignals_entries_def signal_numbers Let_def)

section \<open>The whole program\<close>

lemma getBuildSignalTime_example:
  "getBuildSignalTime example_config (Build 40 60) (50 * Second)
    = ([GettingBuildInfo, CloudBuildTimeoutIs 60, ContainerTerminatedAt 100000000000,
        ProcessSignaledAt 90000000000], Ok 90000000000)"
  by (simp add: getBuildSignalTime_def example_config_def int64_def whole_seconds_10s
      time_Unix_def unixToInternal_def time_Before_def Second_def Let_def)


lemma main_supervised:
  assumes "parseArgs (parseDuration w) (parsed_flags w) = Inr cfg"
    and "snd (getBuildSignalTime cfg (api w) (now_resolve w)) = Ok st"
  shows "main w =
    report (map Log (fst (getBuildSignalTime cfg (api w) (now_resolve w)))
              @ fst (runCommand cfg (time_Sub st (now_main w)) (process_set w) (deliver w)
                      (caughtSigsChan (events w))),
            snd (runCommand cfg (time_Sub st (now_main w)) (process_set w) (deliver w)
                      (caughtSigsChan (events w))))"
  using assms
  by (cases "getBuildSignalTime cfg (api w) (now_resolve w)")
    (simp add: main_def split: prod.splits)


lemma main_child_first:
  assumes "parseArgs (parseDuration w) (parsed_flags w) = Inr cfg"
    and "snd (getBuildSignalTime cfg (api w) (now_resolve w)) = Ok st"
    and "events w = ChildDone r # rest"
  shows "main w =
    report (map Log (fst (getBuildSignalTime cfg (api w) (now_resolve w)))
              @ [StartChild (cmdName cfg) (cmdArgs cfg), ArmTimer (time_Sub st (now_main w)),
                 RecvDone r],
            Returned r)"
  using assms(3) main_supervised [OF assms(1,2)]
  by (simp add: runCommand_def caughtSigsChan_def)

subsection \<open>The child's exit status\<close>

text \<open>
  Claim C1 asks that a run whose signal or timer branch fires first report the child's
  real exit status. In the run below the timer fires, \<open>SIGTERM\<close> is delivered, and the
  child then exits with code 1. \<open>runCommand\<close> returns the \<open>nil\<close> result of the delivery
  (the value received on line 109 is dropped), so the program logs "Process exited
  successfully" and \<open>main\<close> returns, exit status 0.
\<close>

theorem timer_branch_drops_child_status:
  "main (example_world\<lparr>events := [TimerFired, ChildDone (Some (ExitError (Exited 1)))]\<rparr>)
    = ([Log GettingBuildInfo, Log (CloudBuildTimeoutIs 60),
        Log (ContainerTerminatedAt 100000000000), Log (ProcessSignaledAt 90000000000),
        StartChild ''terraform'' [''apply''], ArmTimer 40000000000, RecvTimer,
        Log (TimeoutReached ''SIGTERM''), SendSignal (Some 15) None,
        Log WaitingOnProcess, RecvDone (Some (ExitError (Exited 1))),
        Log ExitedSuccessfully],
       MainReturns)"
  by (simp add: run_defs)


text \<open>
  Claim C2 asks that, where no override exit code applies, the child's own exit code be
  the exit code of the program. (The program has no setting for an override exit code:
  its flags are \<open>--signal\<close>, \<open>--before-timeout\<close> and \<open>--help\<close>.) In the run below an
  interrupt (signal 2) arrives before the deadline, it is forwarded, and the child then
  exits with code 130. \<open>runCommand\<close> again returns the \<open>nil\<close> result of the delivery
  and not the value received on line 109, so the exit status of the program is 0.
\<close>

theorem forwarded_signal_drops_child_status:
  "main (example_world\<lparr>events := [Incoming 2, ChildDone (Some (ExitError (Exited 130)))]\<rparr>)
    = ([Log GettingBuildInfo, Log (CloudBuildTimeoutIs 60),
        Log (ContainerTerminatedAt 100000000000), Log (ProcessSignaledAt 90000000000),
        StartChild ''terraform'' [''apply''], ArmTimer 40000000000, RecvSignal 2,
        Log (ForwardingSignal 2), SendSignal (Some 2) None,
        Log WaitingOnProcess, RecvDone (Some (ExitError (Exited 130))),
        Log ExitedSuccessfully],
       MainReturns)
    \<and> exit_status (snd (main (example_world
          \<lparr>events := [Incoming 2, ChildDone (Some (ExitError (Exited 130)))]\<rparr>))) = Some 0"
  by (simp add: run_defs)

text \<open>
  Claim C8, as the spec states it, has a child killed by a signal reported as a signalled
  exit that carries the signal, distinct from a normal non-zero exit. The program reads
  \<open>ExitCode()\<close> of every \<open>ExitError\<close> and passes it to \<open>os.Exit\<close>: a child killed
  by \<open>SIGKILL\<close> and a child killed by \<open>SIGTERM\<close> both end the program with
  \<open>os.Exit(-1)\<close>, and the exit status 255 that the caller sees is the one of a child
  that exited normally with code 255.
\<close>

theorem signalled_child_counterexample:
  "main (example_world\<lparr>events := [ChildDone (Some (ExitError (Signaled SIGKILL)))]\<rparr>)
    = ([Log GettingBuildInfo, Log (CloudBuildTimeoutIs 60),
        Log (ContainerTerminatedAt 100000000000), Log (ProcessSignaledAt 90000000000),
        StartChild ''terraform'' [''apply''], ArmTimer 40000000000,
        RecvDone (Some (ExitError (Signaled SIGKILL))), Log (ExitedNonZero (- 1))],
       OsExit (- 1))
    \<and> snd (main (example_world\<lparr>events := [ChildDone (Some (ExitError (Signaled SIGTERM)))]\<rparr>))
      = OsExit (- 1)
    \<and> exit_status (OsExit (- 1)) = Some 255
    \<and> exit_status (snd (main (example_world
          \<lparr>events := [ChildDone (Some (ExitError (Exited 255)))]\<rparr>))) = Some 255"
  by (simp add: run_defs)

text \<open>
  Claim C8, amended: on the path of natural completion a child killed by a signal is
  reported through the exit-code channel, as a normal non-zero exit is: the program logs
  the non-zero exit code \<open>-1\<close> and calls \<open>os.Exit(-1)\<close>, whichever signal killed the
  child, so the caller sees the exit status 255. A child that exited with a code \<open>c\<close>
  from 1 to 255 is reported with the log line for \<open>c\<close> and the exit status \<open>c\<close>; for
  \<open>c = 255\<close> only the log line tells the two apart.
\<close>

theorem signalled_child_exit_code:
  assumes "parseArgs (parseDuration w) (parsed_flags w) = Inr cfg"
    and "snd (getBuildSignalTime cfg (api w) (now_resolve w)) = Ok st"
  shows "(events w = ChildDone (Some (ExitError (Signaled s))) # rest \<longrightarrow>
            snd (main w) = OsExit (- 1) \<and> exit_status (snd (main w)) = Some 255
            \<and> last (fst (main w)) = Log (ExitedNonZero (- 1)))
    \<and> (events w = ChildDone (Some (ExitError (Exited c))) # rest \<and> 0 < c \<and> c < 256 \<longrightarrow>
            snd (main w) = OsExit c \<and> exit_status (snd (main w)) = Some c
            \<and> last (fst (main w)) = Log (ExitedNonZero c))"
  using main_child_first [OF assms]
  by (auto simp: report_def)

theorem signalled_child_exit_code_witness:
  "parseArgs (parseDuration example_world) (parsed_flags example_world) = Inr example_config
    \<and> snd (getBuildSignalTime example_config (api example_world) (now_resolve example_world))
        = Ok 90000000000
    \<and> snd (main (example_world\<lparr>events := [ChildDone (Some (ExitError (Signaled 9)))]\<rparr>))
        = OsExit (- 1)
    \<and> exit_status (snd (main (example_world
          \<lparr>events := [ChildDone (Some (ExitError (Signaled 9)))]\<rparr>))) = Some 255
    \<and> last (fst (main (example_world\<lparr>events := [ChildDone (Some (ExitError (Signaled 9)))]\<rparr>)))
        = Log (ExitedNonZero (- 1))
    \<and> snd (main (example_world\<lparr>events := [ChildDone (Some (ExitError (Exited 3)))]\<rparr>))
        = OsExit 3
    \<and> exit_status (snd (main (example_world
          \<lparr>events := [ChildDone (Some (ExitError (Exited 3)))]\<rparr>))) = Some 3
    \<and> last (fst (main (example_world\<lparr>events := [ChildDone (Some (ExitError (Exited 3)))]\<rparr>)))
        = Log (ExitedNonZero 3)"
  using signalled_child_exit_code [of
      "example_world\<lparr>events := [ChildDone (Some (ExitError (Signaled 9)))]\<rparr>"
      example_config 90000000000 9 "[]" 3]
    signalled_child_exit_code [of
      "example_world\<lparr>events := [ChildDone (Some (ExitError (Exited 3)))]\<rparr>"
      example_config 90000000000 9 "[]" 3]
  by (simp add: example_world_def parseArgs_example getBuildSignalTime_example)

subsection \<open>Forwarded signals\<close>





section \<open>The deadline\<close>

lemma int64_in_range: "is_int64 x \<Longrightarrow> int64 x = x"
  by (simp add: int64_def is_int64_def)

lemma time_Unix_in_range: "is_int64 (sec + unixToInternal) \<Longrightarrow> time_Unix sec = sec * Second"
  by (simp add: time_Unix_def int64_in_range)

lemma whole_seconds_exact: "d mod Second = 0 \<Longrightarrow> whole_seconds d * Second = d"
proof -
  assume a: "d mod Second = 0"
  then have "(- d) mod Second = 0"
    by (simp add: zmod_zminus1_eq_if)
  with a show ?thesis
    by (auto simp: whole_seconds_def seconds_of_magnitude_def)
qed

lemma example_lead_seconds: "whole_seconds (timeoutDur example_config) = 10"
  by (simp add: example_config_def Second_def whole_seconds_10s)

text \<open>
  \<open>getBuildSignalTime\<close> when neither the sum of line 131, nor the difference of line 132,
  nor the seconds that \<open>time.Unix\<close> stores leave the range of an \<open>int64\<close>.
\<close>

lemma getBuildSignalTime_in_range:
  assumes "is_int64 (start + timeout)"
    and "is_int64 (start + timeout - whole_seconds (timeoutDur cfg))"
    and "is_int64 (start + timeout - whole_seconds (timeoutDur cfg) + unixToInternal)"
    and "signalInstant = (start + timeout - whole_seconds (timeoutDur cfg)) * Second"
  shows "getBuildSignalTime cfg (Build start timeout) now =
    (if signalInstant < now then
       (if length (buildId cfg) < 8 then ([GettingBuildInfo], Panics)
        else ([GettingBuildInfo], Err (SignalTimeInPast signalInstant (take 8 (buildId cfg)))))
     else ([GettingBuildInfo, CloudBuildTimeoutIs timeout,
            ContainerTerminatedAt (time_Unix (start + timeout)), ProcessSignaledAt signalInstant],
           Ok signalInstant))"
  using assms
  by (simp add: getBuildSignalTime_def Let_def int64_in_range time_Unix_in_range time_Before_def)

lemma timers_armed_append: "timers_armed (xs @ ys) = timers_armed xs @ timers_armed ys"
  by (induction xs rule: timers_armed.induct) simp_all

lemma timers_armed_logs: "timers_armed (map Log lg) = []"
  by (induction lg) simp_all

lemma timers_armed_runCommand: "timers_armed (fst (runCommand cfg t ps dl es)) = [t]"
  by (simp add: runCommand_def wait_and_return_def Let_def timers_armed_append
      split: list.splits event.splits option.splits)

lemma timers_armed_report: "timers_armed (fst (report (tr, r))) = timers_armed tr"
  by (simp add: report_def timers_armed_append
      split: run_result.splits option.splits go_error.splits)

lemma timers_armed_main:
  assumes "parseArgs (parseDuration w) (parsed_flags w) = Inr cfg"
    and "snd (getBuildSignalTime cfg (api w) (now_resolve w)) = Ok st"
  shows "timers_armed (fst (main w)) = [time_Sub st (now_main w)]"
  using main_supervised [OF assms]
  by (simp add: timers_armed_report timers_armed_append timers_armed_logs
      timers_armed_runCommand)

text \<open>
  Claim C4, as the spec states it, has the resolution fail whenever the clock has reached
  the signal instant, exact equality included. The program compares with
  \<open>signalTime.Before(time.Now())\<close>, which is strict: with the termination at second
  100, a lead time of ten seconds and the clock at second 90 exactly, the resolution
  succeeds and the program goes on to run the command, the timer armed with the
  duration 0.
\<close>

theorem equal_instant_counterexample:
  "snd (getBuildSignalTime example_config (Build 40 60) (90 * Second)) = Ok (90 * Second)
    \<and> main (example_world\<lparr>now_resolve := 90 * Second, now_main := 90 * Second\<rparr>)
      = ([Log GettingBuildInfo, Log (CloudBuildTimeoutIs 60),
          Log (ContainerTerminatedAt 100000000000), Log (ProcessSignaledAt 90000000000),
          StartChild ''terraform'' [''apply''], ArmTimer 0, RecvDone None,
          Log ExitedSuccessfully],
         MainReturns)"
  by (simp add: run_defs example_config_def)

text \<open>
  Claim C4, amended: let the signal instant be the termination instant (start plus
  timeout, in seconds) minus the whole seconds \<open>int64(leadTime.Seconds())\<close> of the lead
  time, for values as the program can receive them (each an \<open>int64\<close>, the clock
  reading in nanoseconds) and with no \<open>int64\<close> overflow in the sum, in the difference
  or in \<open>time.Unix\<close>. For every clock reading strictly after the signal instant the resolution fails and \<open>runCommand\<close> is
  never entered, so no child is spawned: with a build id of at least eight bytes the
  program ends through \<open>log.Fatalln\<close> with the error that the signal time occurs in the
  past, exit code 1 (a shorter build id makes the formatting of that error panic). For a
  clock reading equal to or before the signal instant the resolution succeeds.
\<close>

theorem past_signal_time_refused:
  assumes "parseArgs (parseDuration w) (parsed_flags w) = Inr cfg"
    and "api w = Build start timeout"
    and "is_int64 start" and "is_int64 timeout" and "is_int64 (timeoutDur cfg)"
    and "is_int64 (start + timeout)"
    and "is_int64 (start + timeout - whole_seconds (timeoutDur cfg))"
    and "is_int64 (start + timeout - whole_seconds (timeoutDur cfg) + unixToInternal)"
    and "signalInstant = (start + timeout - whole_seconds (timeoutDur cfg)) * Second"
    and "is_int64 (now_resolve w)"
  shows "(signalInstant < now_resolve w \<and> 8 \<le> length (buildId cfg) \<longrightarrow>
            main w = ([Log GettingBuildInfo,
                       Log (Fatal (SignalTimeInPast signalInstant (take 8 (buildId cfg))))],
                      OsExit 1))
    \<and> (signalInstant < now_resolve w \<longrightarrow>
          (\<forall>c a. StartChild c a \<notin> set (fst (main w)))
          \<and> (snd (main w) = OsExit 1 \<or> snd (main w) = GoPanic))
    \<and> (now_resolve w \<le> signalInstant \<longrightarrow>
          snd (getBuildSignalTime cfg (api w) (now_resolve w)) = Ok signalInstant)"
proof (intro conjI impI)
  note g = getBuildSignalTime_in_range [OF assms(6-9), of "now_resolve w"]
  {
    assume "signalInstant < now_resolve w \<and> 8 \<le> length (buildId cfg)"
    then show "main w = ([Log GettingBuildInfo,
                       Log (Fatal (SignalTimeInPast signalInstant (take 8 (buildId cfg))))],
                      OsExit 1)"
      using assms(1,2) g by (simp add: main_def)
  next
    assume "signalInstant < now_resolve w"
    then show "\<forall>c a. StartChild c a \<notin> set (fst (main w))"
      and "snd (main w) = OsExit 1 \<or> snd (main w) = GoPanic"
      using assms(1,2) g by (simp_all add: main_def)
  next
    assume "now_resolve w \<le> signalInstant"
    then show "snd (getBuildSignalTime cfg (api w) (now_resolve w)) = Ok signalInstant"
      using assms(2) g by simp
  }
qed

theorem past_signal_time_refused_witness:
  "parseArgs (parseDuration example_world) (parsed_flags example_world) = Inr example_config
    \<and> api example_world = Build 40 60
    \<and> whole_seconds (timeoutDur example_config) = 10
    \<and> (90000000000 :: int) < 95 * Second
    \<and> 8 \<le> length (buildId example_config)
    \<and> main (example_world\<lparr>now_resolve := 95 * Second, now_main := 95 * Second\<rparr>)
        = ([Log GettingBuildInfo, Log (Fatal (SignalTimeInPast 90000000000 ''0f0e0d0c''))],
           OsExit 1)
    \<and> 90 * Second \<le> (90000000000 :: int)
    \<and> snd (getBuildSignalTime example_config (Build 40 60) (90 * Second)) = Ok 90000000000"
proof -
  let ?late = "example_world\<lparr>now_resolve := 95 * Second, now_main := 95 * Second\<rparr>"
  let ?equal = "example_world\<lparr>now_resolve := 90 * Second, now_main := 90 * Second\<rparr>"
  have p: "parseArgs (parseDuration example_world) (parsed_flags example_world)
      = Inr example_config"
    by (simp add: example_world_def parseArgs_example)
  have a: "api example_world = Build 40 60"
    by (simp add: example_world_def)
  have r: "is_int64 40" "is_int64 60" "is_int64 (timeoutDur example_config)"
    "is_int64 (40 + 60)" "is_int64 (40 + 60 - whole_seconds (timeoutDur example_config))"
    "is_int64 (40 + 60 - whole_seconds (timeoutDur example_config) + unixToInternal)"
    by (simp_all add: is_int64_def whole_seconds_10s unixToInternal_def example_config_def
        Second_def)
  have s: "(90000000000 :: int) = (40 + 60 - whole_seconds (timeoutDur example_config)) * Second"
    by (simp add: example_lead_seconds Second_def)
  have b: "8 \<le> length (buildId example_config)" "take 8 (buildId example_config) = ''0f0e0d0c''"
    by (simp_all add: example_config_def)
  have late: "(90000000000 :: int) < now_resolve ?late" "is_int64 (now_resolve ?late)"
    and equal: "now_resolve ?equal \<le> 90000000000" "now_resolve ?equal = 90 * Second"
      "is_int64 (now_resolve ?equal)"
    by (simp_all add: Second_def is_int64_def)
  have "main ?late
      = ([Log GettingBuildInfo, Log (Fatal (SignalTimeInPast 90000000000 ''0f0e0d0c''))],
         OsExit 1)"
    using past_signal_time_refused [of ?late example_config 40 60 90000000000] p a r s b late
    by simp
  moreover have "snd (getBuildSignalTime example_config (Build 40 60) (90 * Second))
        = Ok 90000000000"
    using past_signal_time_refused [of ?equal example_config 40 60 90000000000] p a r s b equal
    by simp
  ultimately show ?thesis
    using p a b(1) by (simp add: example_lead_seconds Second_def)
qed

text \<open>
  Claim C5, as the spec states it, has the timer armed with a positive duration equal to
  the termination instant minus the lead time minus the clock reading. The program cuts
  the lead time to whole seconds and reads the clock a second time when it arms the
  timer. With the termination at second 100, the lead time \<open>1500ms\<close> and the clock at
  second 90, the timer is armed with 9 seconds, not 8.5. With the lead time \<open>10s\<close>, the
  clock at 89.5 seconds during the resolution and at 90.5 seconds in \<open>main\<close>, the
  resolution succeeds and the timer is armed with minus half a second.
\<close>

theorem timer_duration_counterexample:
  "main (example_world\<lparr>parsed_flags := example_flags\<lparr>flag_before_timeout := ''1500ms''\<rparr>,
                        now_resolve := 90 * Second, now_main := 90 * Second\<rparr>)
      = ([Log GettingBuildInfo, Log (CloudBuildTimeoutIs 60),
          Log (ContainerTerminatedAt 100000000000), Log (ProcessSignaledAt 99000000000),
          StartChild ''terraform'' [''apply''], ArmTimer 9000000000, RecvDone None,
          Log ExitedSuccessfully],
         MainReturns)
    \<and> time_Unix (40 + 60) - 1500000000 - 90 * Second = 8500000000
    \<and> main (example_world\<lparr>now_resolve := 89500000000, now_main := 90500000000\<rparr>)
      = ([Log GettingBuildInfo, Log (CloudBuildTimeoutIs 60),
          Log (ContainerTerminatedAt 100000000000), Log (ProcessSignaledAt 90000000000),
          StartChild ''terraform'' [''apply''], ArmTimer (- 500000000), RecvDone None,
          Log ExitedSuccessfully],
         MainReturns)"
  by (simp add: run_defs)

text \<open>
  Claim C5, amended: let the signal instant be the termination instant minus the whole
  seconds \<open>int64(leadTime.Seconds())\<close> of the lead time, for values as the program can
  receive them (each an \<open>int64\<close>, the clock readings in nanoseconds) and with no
  \<open>int64\<close> overflow in the sum, in the difference or in \<open>time.Unix\<close>. For every clock
  reading of the resolution that is not after the signal instant, the resolution
  succeeds and the run arms one timer and no other, with the signal instant minus the second clock reading, taken in \<open>main\<close>
  (held to the range of a \<open>Duration\<close>). That duration is positive exactly when the
  second reading is before the signal instant, and it equals termination instant minus
  lead time minus clock reading when the lead time is a whole number of seconds and the
  two readings are the same.
\<close>

theorem timer_armed_with_remaining_time:
  assumes "parseArgs (parseDuration w) (parsed_flags w) = Inr cfg"
    and "api w = Build start timeout"
    and "is_int64 start" and "is_int64 timeout" and "is_int64 (timeoutDur cfg)"
    and "is_int64 (start + timeout)"
    and "is_int64 (start + timeout - whole_seconds (timeoutDur cfg))"
    and "is_int64 (start + timeout - whole_seconds (timeoutDur cfg) + unixToInternal)"
    and "signalInstant = (start + timeout - whole_seconds (timeoutDur cfg)) * Second"
    and "now_resolve w \<le> signalInstant"
    and "is_int64 (now_resolve w)" and "is_int64 (now_main w)"
  shows "snd (getBuildSignalTime cfg (api w) (now_resolve w)) = Ok signalInstant
    \<and> timers_armed (fst (main w)) = [time_Sub signalInstant (now_main w)]
    \<and> (minDuration \<le> signalInstant - now_main w \<and> signalInstant - now_main w \<le> maxDuration
          \<longrightarrow> time_Sub signalInstant (now_main w) = signalInstant - now_main w)
    \<and> (0 < time_Sub signalInstant (now_main w) \<longleftrightarrow> now_main w < signalInstant)
    \<and> (timeoutDur cfg mod Second = 0 \<and> now_main w = now_resolve w
          \<and> signalInstant - now_main w \<le> maxDuration
          \<longrightarrow> time_Sub signalInstant (now_main w)
              = (start + timeout) * Second - timeoutDur cfg - now_resolve w)"
proof -
  have ok: "snd (getBuildSignalTime cfg (api w) (now_resolve w)) = Ok signalInstant"
    using getBuildSignalTime_in_range [OF assms(6-9), of "now_resolve w"] assms(2,10) by simp
  have arm: "timers_armed (fst (main w)) = [time_Sub signalInstant (now_main w)]"
    by (rule timers_armed_main [OF assms(1) ok])
  have plain: "minDuration \<le> signalInstant - now_main w \<and> signalInstant - now_main w \<le> maxDuration
      \<longrightarrow> time_Sub signalInstant (now_main w) = signalInstant - now_main w"
    by (simp add: time_Sub_def)
  have pos: "0 < time_Sub signalInstant (now_main w) \<longleftrightarrow> now_main w < signalInstant"
    by (simp add: time_Sub_def minDuration_def maxDuration_def)
  have exact: "timeoutDur cfg mod Second = 0 \<and> now_main w = now_resolve w
      \<and> signalInstant - now_main w \<le> maxDuration
      \<longrightarrow> time_Sub signalInstant (now_main w)
          = (start + timeout) * Second - timeoutDur cfg - now_resolve w"
  proof (intro impI)
    assume a: "timeoutDur cfg mod Second = 0 \<and> now_main w = now_resolve w
      \<and> signalInstant - now_main w \<le> maxDuration"
    then have "signalInstant = (start + timeout) * Second - timeoutDur cfg"
      using assms(9) whole_seconds_exact [of "timeoutDur cfg"] by (simp add: algebra_simps)
    moreover have "minDuration \<le> signalInstant - now_main w"
      using a assms(10) by (simp add: minDuration_def)
    ultimately show "time_Sub signalInstant (now_main w)
          = (start + timeout) * Second - timeoutDur cfg - now_resolve w"
      using a by (simp add: time_Sub_def)
  qed
  from ok arm plain pos exact show ?thesis by blast
qed

theorem timer_armed_with_remaining_time_witness:
  "parseArgs (parseDuration example_world) (parsed_flags example_world) = Inr example_config
    \<and> api example_world = Build 40 60
    \<and> whole_seconds (timeoutDur example_config) = 10
    \<and> now_resolve example_world \<le> 90000000000
    \<and> snd (getBuildSignalTime example_config (api example_world) (now_resolve example_world))
        = Ok 90000000000
    \<and> timers_armed (fst (main example_world)) = [40000000000]
    \<and> time_Sub 90000000000 (now_main example_world) = 40000000000
    \<and> timeoutDur example_config mod Second = 0
    \<and> now_main example_world = now_resolve example_world
    \<and> (40 + 60) * Second - timeoutDur example_config - now_resolve example_world = 40000000000"
proof -
  have p: "parseArgs (parseDuration example_world) (parsed_flags example_world)
      = Inr example_config"
    by (simp add: example_world_def parseArgs_example)
  have a: "api example_world = Build 40 60"
    by (simp add: example_world_def)
  have r: "is_int64 40" "is_int64 60" "is_int64 (timeoutDur example_config)"
    "is_int64 (40 + 60)" "is_int64 (40 + 60 - whole_seconds (timeoutDur example_config))"
    "is_int64 (40 + 60 - whole_seconds (timeoutDur example_config) + unixToInternal)"
    by (simp_all add: is_int64_def whole_seconds_10s unixToInternal_def example_config_def
        Second_def)
  have s: "(90000000000 :: int) = (40 + 60 - whole_seconds (timeoutDur example_config)) * Second"
    by (simp add: example_lead_seconds Second_def)
  have n: "now_resolve example_world \<le> 90000000000"
    "now_main example_world = now_resolve example_world"
    "now_main example_world = 50000000000"
    by (simp_all add: example_world_def Second_def)
  have c: "is_int64 (now_resolve example_world)" "is_int64 (now_main example_world)"
    by (simp_all add: example_world_def Second_def is_int64_def)
  have d: "timeoutDur example_config mod Second = 0" "timeoutDur example_config = 10000000000"
    by (simp_all add: example_config_def Second_def)
  have t: "time_Sub 90000000000 50000000000 = 40000000000"
    by (simp add: time_Sub_def minDuration_def maxDuration_def)
  from timer_armed_with_remaining_time [of example_world example_config 40 60 90000000000]
    p a r s n(1) c
  have "snd (getBuildSignalTime example_config (api example_world) (now_resolve example_world))
        = Ok 90000000000
      \<and> timers_armed (fst (main example_world)) = [time_Sub 90000000000 (now_main example_world)]"
    by simp
  then show ?thesis
    using p a n d t by (simp add: whole_seconds_10s Second_def)
qed


end
